theory Spec2Isabelle
  imports Main
begin

section \<open>The localisation header \<^verbatim>\<open>language.h\<close>\<close>

text \<open>
  The header is a block of file-scope declarations guarded by one conditional:
  \<^verbatim>\<open>#ifdef LANGUAGE_FR\<close> (lines 5 to 16) compiles the French strings,
  \<^verbatim>\<open>#else\<close> (lines 17 to 28) the English ones. Each branch declares the same ten
  objects: two arrays of strings and eight strings. A C string is a sequence of bytes, so
  the accented letters of the French month names are the two bytes of their UTF-8 encoding.
\<close>

subsection \<open>The selector, lines 1 to 3\<close>

text \<open>
  Lines 2 and 3 hold one \<^verbatim>\<open>#define\<close> per language; the language that is not wanted
  is commented out. A line of the selector is a definition, or a line commented out.
\<close>

datatype directive = Define string | Commented_out directive

type_synonym macros = "string list"

text \<open>
  The names that are defined once the selector lines have been read. The header includes
  no other file, and these lines are its only definitions.
\<close>

fun defined_names :: "directive list \<Rightarrow> macros" where
  "defined_names [] = []"
| "defined_names (Define m # ls) = m # defined_names ls"
| "defined_names (Commented_out _ # ls) = defined_names ls"

text \<open>\<^verbatim>\<open>#ifdef m\<close>: is the name defined?\<close>

definition ifdef :: "string \<Rightarrow> macros \<Rightarrow> bool" where
  "ifdef m ds = (m \<in> set ds)"

text \<open>Lines 2 and 3 as they are in the repository.\<close>

definition shipped :: "directive list" where
  "shipped = [Define ''LANGUAGE_FR'', Commented_out (Define ''LANGUAGE_EN'')]"

text \<open>
  The two languages the header offers, and the selector that line 1 asks for
  (``Uncomment the language you want to display on the screen''): the line of the
  wanted language uncommented, the other one commented out.
\<close>

datatype locale_tag = FR | EN

fun select :: "locale_tag \<Rightarrow> directive list" where
  "select FR = [Define ''LANGUAGE_FR'', Commented_out (Define ''LANGUAGE_EN'')]"
| "select EN = [Commented_out (Define ''LANGUAGE_FR''), Define ''LANGUAGE_EN'']"

subsection \<open>The declarations, lines 5 to 29\<close>

record language_table =
  days :: "string list"
  months :: "string list"
  today_text :: string
  forecast_text :: string
  ha_sensor_text :: string
  crypto_text :: string
  battery_text :: string
  indoor_text :: string
  outdoor_text :: string
  other_text :: string

text \<open>Lines 7 to 16, the branch of \<^verbatim>\<open>#ifdef LANGUAGE_FR\<close>.\<close>

definition language_fr :: language_table where
  "language_fr = \<lparr>
     days = [''Dimanche'', ''Lundi'', ''Mardi'', ''Mercredi'', ''Jeudi'', ''Vendredi'',
             ''Samedi''],
     months = [''Janvier'', CHR ''F'' # CHR 0xC3 # CHR 0xA9 # ''vrier'', ''Mars'', ''Avril'',
               ''Mai'', ''Juin'', ''Juillet'', ''Ao'' @ CHR 0xC3 # CHR 0xBB # ''t'',
               ''Septembre'', ''Octobre'', ''Novembre'',
               CHR ''D'' # CHR 0xC3 # CHR 0xA9 # ''cembre''],
     today_text = ''Aujourd'hui'',
     forecast_text = ''Previsions'',
     ha_sensor_text = ''Capteurs Home Assistant'',
     crypto_text = ''Crypto'',
     battery_text = ''Batterie'',
     indoor_text = ''Interieur'',
     outdoor_text = ''Exterieur'',
     other_text = ''Serre'' \<rparr>"

text \<open>Lines 19 to 28, the branch of \<^verbatim>\<open>#else\<close>.\<close>

definition language_en :: language_table where
  "language_en = \<lparr>
     days = [''Sunday'', ''Monday'', ''Tuesday'', ''Wednesday'', ''Thursday'', ''Friday'',
             ''Saturday''],
     months = [''January'', ''February'', ''March'', ''April'', ''May'', ''June'', ''July'',
               ''August'', ''September'', ''October'', ''November'', ''December''],
     today_text = ''Today'',
     forecast_text = ''Forecast'',
     ha_sensor_text = ''Home Assistant sensors'',
     crypto_text = ''Crypto'',
     battery_text = ''Battery'',
     indoor_text = ''Indoor'',
     outdoor_text = ''Outdoor'',
     other_text = ''Other'' \<rparr>"

text \<open>
  The conditional of lines 5, 17 and 29. Only \<^verbatim>\<open>LANGUAGE_FR\<close> is tested;
  \<^verbatim>\<open>LANGUAGE_EN\<close> is defined by the selector and never read.
\<close>

definition language_h :: "macros \<Rightarrow> language_table" where
  "language_h ds = (if ifdef ''LANGUAGE_FR'' ds then language_fr else language_en)"

text \<open>The strings a build of the header exposes, given its selector lines.\<close>

definition active :: "directive list \<Rightarrow> language_table" where
  "active sel = language_h (defined_names sel)"

subsection \<open>The declared types\<close>

text \<open>
  Both branches declare the ten objects with the same types: the arrays as
  \<^verbatim>\<open>const char *days[]\<close> and \<^verbatim>\<open>const char *months[]\<close>, the labels as
  \<^verbatim>\<open>const char *today_text\<close> and so on. In each declaration \<^verbatim>\<open>const\<close> qualifies the
  characters pointed to; the pointer has no qualifier of its own. A type records, for
  characters and for pointers, whether it is const-qualified.
\<close>

datatype c_type = Char bool | Pointer bool c_type | Array c_type

datatype object =
  Days | Months | Today_text | Forecast_text | Ha_sensor_text | Crypto_text |
  Battery_text | Indoor_text | Outdoor_text | Other_text

fun declared_type :: "object \<Rightarrow> c_type" where
  "declared_type Days = Array (Pointer False (Char True))"
| "declared_type Months = Array (Pointer False (Char True))"
| "declared_type Today_text = Pointer False (Char True)"
| "declared_type Forecast_text = Pointer False (Char True)"
| "declared_type Ha_sensor_text = Pointer False (Char True)"
| "declared_type Crypto_text = Pointer False (Char True)"
| "declared_type Battery_text = Pointer False (Char True)"
| "declared_type Indoor_text = Pointer False (Char True)"
| "declared_type Outdoor_text = Pointer False (Char True)"
| "declared_type Other_text = Pointer False (Char True)"

text \<open>
  The expressions of C that designate a part of the table: a declared object
  \<^verbatim>\<open>x\<close>, and a subscript \<^verbatim>\<open>e[i]\<close> of such an expression, which is an element of an
  array or a character of a string. The type of a subscript does not depend on the index.
\<close>

datatype lvalue = Object object | Subscript lvalue

fun lvalue_type :: "lvalue \<Rightarrow> c_type option" where
  "lvalue_type (Object x) = Some (declared_type x)"
| "lvalue_type (Subscript e) =
     (case lvalue_type e of
        Some (Array t) \<Rightarrow> Some t
      | Some (Pointer c t) \<Rightarrow> Some t
      | Some (Char c) \<Rightarrow> None
      | None \<Rightarrow> None)"

text \<open>
  An assignment \<^verbatim>\<open>e = v\<close> is valid C when \<^verbatim>\<open>e\<close> is a modifiable lvalue: it does
  not have an array type and its type is not const-qualified.
\<close>

definition modifiable :: "lvalue \<Rightarrow> bool" where
  "modifiable e =
     (case lvalue_type e of
        Some (Char c) \<Rightarrow> \<not> c
      | Some (Pointer c t) \<Rightarrow> \<not> c
      | Some (Array t) \<Rightarrow> False
      | None \<Rightarrow> False)"

text \<open>
  Where the table keeps the strings of an object: a label is itself the pointer to its
  string, an array holds one pointer per element.
\<close>

fun string_pointer :: "object \<Rightarrow> lvalue" where
  "string_pointer Days = Subscript (Object Days)"
| "string_pointer Months = Subscript (Object Months)"
| "string_pointer x = Object x"

subsection \<open>Reading the arrays\<close>

datatype lookup_error = IndexOutOfRange

text \<open>
  Modelled from the spec: the lookup of a name by its index. The header only declares
  the arrays; the expressions that index them (\<^verbatim>\<open>days[i]\<close>, \<^verbatim>\<open>months[i]\<close>) are in
  the display sketch, which is not among the sources. The contract: an index inside the
  array returns the string stored there; an index outside it is a violation by the
  caller, which a C subscript leaves undefined and which is reported here as
  \<open>IndexOutOfRange\<close>. Indices are C integers, so they may be negative.
\<close>

definition lookup :: "string list \<Rightarrow> int \<Rightarrow> lookup_error + string" where
  "lookup a i =
     (if 0 \<le> i \<and> i < int (length a) then Inr (a ! nat i) else Inl IndexOutOfRange)"

definition weekday_name :: "language_table \<Rightarrow> int \<Rightarrow> lookup_error + string" where
  "weekday_name t i = lookup (days t) i"

definition month_name :: "language_table \<Rightarrow> int \<Rightarrow> lookup_error + string" where
  "month_name t i = lookup (months t) i"

section \<open>Properties\<close>

subsection \<open>Evaluation of the selector\<close>

lemmas build_defs = active_def language_h_def ifdef_def

lemma active_select:
  "active (select FR) = language_fr" "active (select EN) = language_en"
  by (simp_all add: build_defs)

subsection \<open>Shape of the tables\<close>

text \<open>
  Claim C1. For each of the two locales, FR and EN, the array of weekday names has
  exactly 7 entries and the array of month names has exactly 12.
\<close>

theorem table_lengths:
  "length (days (active (select L))) = 7 \<and> length (months (active (select L))) = 12"
  by (cases L) (simp_all add: build_defs language_fr_def language_en_def)

text \<open>
  Claim C2. With FR selected the label \<^verbatim>\<open>today_text\<close> is the string
  \<^verbatim>\<open>Aujourd'hui\<close>; with EN selected it is \<^verbatim>\<open>Today\<close>.
\<close>

theorem today_label:
  "today_text (active (select FR)) = ''Aujourd'hui'' \<and>
   today_text (active (select EN)) = ''Today''"
  by (simp add: build_defs language_fr_def language_en_def)

text \<open>
  Claim C6. In each locale, index 0 of the weekday names is the name of Sunday
  (\<^verbatim>\<open>Dimanche\<close>, \<^verbatim>\<open>Sunday\<close>) and index 0 of the month names is the name of January
  (\<^verbatim>\<open>Janvier\<close>, \<^verbatim>\<open>January\<close>); the weekdays follow in order up to Saturday at index 6
  and the months up to December at index 11.
\<close>

theorem calendar_order:
  "days (active (select FR)) =
     [''Dimanche'', ''Lundi'', ''Mardi'', ''Mercredi'', ''Jeudi'', ''Vendredi'', ''Samedi''] \<and>
   days (active (select EN)) =
     [''Sunday'', ''Monday'', ''Tuesday'', ''Wednesday'', ''Thursday'', ''Friday'',
      ''Saturday''] \<and>
   months (active (select FR)) =
     [''Janvier'', CHR ''F'' # CHR 0xC3 # CHR 0xA9 # ''vrier'', ''Mars'', ''Avril'', ''Mai'',
      ''Juin'', ''Juillet'', ''Ao'' @ CHR 0xC3 # CHR 0xBB # ''t'', ''Septembre'', ''Octobre'',
      ''Novembre'', CHR ''D'' # CHR 0xC3 # CHR 0xA9 # ''cembre''] \<and>
   months (active (select EN)) =
     [''January'', ''February'', ''March'', ''April'', ''May'', ''June'', ''July'', ''August'',
      ''September'', ''October'', ''November'', ''December''] \<and>
   days (active (select FR)) ! 0 = ''Dimanche'' \<and> days (active (select FR)) ! 6 = ''Samedi'' \<and>
   days (active (select EN)) ! 0 = ''Sunday'' \<and> days (active (select EN)) ! 6 = ''Saturday'' \<and>
   months (active (select FR)) ! 0 = ''Janvier'' \<and>
   months (active (select FR)) ! 11 = CHR ''D'' # CHR 0xC3 # CHR 0xA9 # ''cembre'' \<and>
   months (active (select EN)) ! 0 = ''January'' \<and>
   months (active (select EN)) ! 11 = ''December''"
  by (simp add: active_select language_fr_def language_en_def del: select.simps)

text \<open>
  Claim C7. Every string of each locale's table is non-empty: the 7 weekday names, the
  12 month names and the 8 labels, for FR and for EN.
\<close>

theorem strings_nonempty:
  "[] \<notin> set (days (active (select L))) \<and> [] \<notin> set (months (active (select L))) \<and>
   today_text (active (select L)) \<noteq> [] \<and> forecast_text (active (select L)) \<noteq> [] \<and>
   ha_sensor_text (active (select L)) \<noteq> [] \<and> crypto_text (active (select L)) \<noteq> [] \<and>
   battery_text (active (select L)) \<noteq> [] \<and> indoor_text (active (select L)) \<noteq> [] \<and>
   outdoor_text (active (select L)) \<noteq> [] \<and> other_text (active (select L)) \<noteq> []"
  by (cases L) (simp_all add: active_select language_fr_def language_en_def del: select.simps)

subsection \<open>The configuration of the repository\<close>

text \<open>
  Claim C10. As the header is shipped, line 2 defines \<^verbatim>\<open>LANGUAGE_FR\<close> and line 3,
  the definition of \<^verbatim>\<open>LANGUAGE_EN\<close>, is commented out; so every exposed string is the
  French one, for instance \<^verbatim>\<open>days[0]\<close> is \<^verbatim>\<open>Dimanche\<close> and \<^verbatim>\<open>today_text\<close> is
  \<^verbatim>\<open>Aujourd'hui\<close>.
\<close>

theorem shipped_french:
  "ifdef ''LANGUAGE_FR'' (defined_names shipped) \<and>
   \<not> ifdef ''LANGUAGE_EN'' (defined_names shipped) \<and>
   active shipped = language_fr \<and>
   days (active shipped) ! 0 = ''Dimanche'' \<and>
   today_text (active shipped) = ''Aujourd'hui''"
  by (simp add: shipped_def build_defs language_fr_def)

subsection \<open>Lookups by index\<close>

lemma lookup_nth: "0 \<le> i \<Longrightarrow> i < int (length a) \<Longrightarrow> lookup a i = Inr (a ! nat i)"
  by (simp add: lookup_def)

lemma lengths_any:
  "length (days (language_h ds)) = 7" "length (months (language_h ds)) = 12"
  by (simp_all add: language_h_def language_fr_def language_en_def)

text \<open>
  Claim C4. In every locale, the lookup of a weekday name at an index from 0 to 6, and
  of a month name at an index from 0 to 11, returns the string at that position of the
  locale's array; under this precondition on the index the lookup never takes its
  out-of-range branch.
\<close>

theorem lookup_in_range:
  "(0 \<le> i \<and> i \<le> 6 \<longrightarrow>
      weekday_name (active (select L)) i = Inr (days (active (select L)) ! nat i) \<and>
      weekday_name (active (select L)) i \<noteq> Inl IndexOutOfRange) \<and>
   (0 \<le> i \<and> i \<le> 11 \<longrightarrow>
      month_name (active (select L)) i = Inr (months (active (select L)) ! nat i) \<and>
      month_name (active (select L)) i \<noteq> Inl IndexOutOfRange)"
  by (simp add: weekday_name_def month_name_def active_def lookup_nth lengths_any
      del: select.simps)

theorem lookup_in_range_witness:
  "(0::int) \<le> 3 \<and> (3::int) \<le> 6 \<and> (3::int) \<le> 11 \<and>
   weekday_name (active (select FR)) 3 = Inr ''Mercredi'' \<and>
   month_name (active (select FR)) 3 = Inr ''Avril''"
  using lookup_in_range [of 3 FR]
  by (simp add: active_select language_fr_def del: select.simps)

subsection \<open>Switching the selector\<close>

text \<open>
  Claim C3, as stated: switching the selector between FR and EN changes every one of
  the 8 labels. It fails at \<^verbatim>\<open>crypto_text\<close>, which lines 12 and 24 both set to
  \<^verbatim>\<open>Crypto\<close>.
\<close>

theorem crypto_label_unchanged:
  "crypto_text (active (select FR)) = crypto_text (active (select EN))"
  by (simp add: active_select language_fr_def language_en_def del: select.simps)

text \<open>
  Claim C3, amended. Switching the selector between FR and EN changes seven of the 8
  labels, all but \<^verbatim>\<open>crypto_text\<close>, which is \<^verbatim>\<open>Crypto\<close> in both; and the strings
  exposed under one selection all come from the table of that one locale.
\<close>

theorem labels_switch:
  "today_text (active (select FR)) \<noteq> today_text (active (select EN)) \<and>
   forecast_text (active (select FR)) \<noteq> forecast_text (active (select EN)) \<and>
   ha_sensor_text (active (select FR)) \<noteq> ha_sensor_text (active (select EN)) \<and>
   battery_text (active (select FR)) \<noteq> battery_text (active (select EN)) \<and>
   indoor_text (active (select FR)) \<noteq> indoor_text (active (select EN)) \<and>
   outdoor_text (active (select FR)) \<noteq> outdoor_text (active (select EN)) \<and>
   other_text (active (select FR)) \<noteq> other_text (active (select EN)) \<and>
   crypto_text (active (select FR)) = ''Crypto'' \<and>
   crypto_text (active (select EN)) = ''Crypto'' \<and>
   active (select FR) = language_fr \<and> active (select EN) = language_en"
  by (simp add: active_select language_fr_def language_en_def del: select.simps)

text \<open>
  Claim C5, as stated: a selection outside FR and EN does not succeed silently. It
  does: the conditional has an \<^verbatim>\<open>#else\<close> branch and no \<^verbatim>\<open>#error\<close>, so a selector
  that defines an unknown language, or none at all, compiles to the English table.
\<close>

theorem unrecognized_selection_compiles:
  "[Define ''LANGUAGE_DE''] \<noteq> select FR \<and> [Define ''LANGUAGE_DE''] \<noteq> select EN \<and>
   active [Define ''LANGUAGE_DE''] = language_en \<and>
   active [Commented_out (Define ''LANGUAGE_FR''), Commented_out (Define ''LANGUAGE_EN'')] =
     language_en"
  by (simp add: build_defs)

text \<open>
  Claim C5, amended. The header tests \<^verbatim>\<open>LANGUAGE_FR\<close> only, so every selector
  compiles: to the table of FR when \<^verbatim>\<open>LANGUAGE_FR\<close> is defined, and to the table
  of EN in every other case, a selector that names an unknown language or none included.
\<close>

theorem selection_total:
  "(ifdef ''LANGUAGE_FR'' (defined_names sel) \<longrightarrow> active sel = active (select FR)) \<and>
   (\<not> ifdef ''LANGUAGE_FR'' (defined_names sel) \<longrightarrow> active sel = active (select EN))"
  by (simp add: active_select del: select.simps) (simp add: active_def language_h_def)

theorem selection_total_witness:
  "ifdef ''LANGUAGE_FR'' (defined_names [Define ''LANGUAGE_FR'', Define ''LANGUAGE_EN'']) \<and>
   active [Define ''LANGUAGE_FR'', Define ''LANGUAGE_EN''] = active (select FR) \<and>
   \<not> ifdef ''LANGUAGE_FR'' (defined_names [Define ''LANGUAGE_DE'']) \<and>
   active [Define ''LANGUAGE_DE''] = active (select EN)"
  using selection_total [of "[Define ''LANGUAGE_FR'', Define ''LANGUAGE_EN'']"]
    selection_total [of "[Define ''LANGUAGE_DE'']"]
  by (simp add: ifdef_def)

text \<open>
  Claim C8, as stated: the selected table is immutable after construction. It is not:
  the declarations of lines 7 to 16 and 19 to 28 make the characters read-only and
  leave every pointer assignable. \<^verbatim>\<open>today_text\<close> of line 9 has the type
  \<^verbatim>\<open>const char *\<close>, a pointer without qualifier, and so has each element
  \<^verbatim>\<open>days[i]\<close> of line 7; an assignment to either is valid C and replaces a string
  of the table.
\<close>

theorem table_assignable:
  "lvalue_type (Object Today_text) = Some (Pointer False (Char True)) \<and>
   modifiable (Object Today_text) \<and>
   lvalue_type (Subscript (Object Days)) = Some (Pointer False (Char True)) \<and>
   modifiable (Subscript (Object Days))"
  by (simp add: modifiable_def)

text \<open>
  Claim C8, amended. When it is built, exactly one locale table is active: the French
  and the English table are two different tables, a build exposes one of them whole,
  never a mix of their fields, and which one is fixed by the selector alone, through
  the test of \<^verbatim>\<open>LANGUAGE_FR\<close>. Of the table only the characters are read-only: for
  each of the ten objects the characters of its strings are const-qualified, so they
  cannot be assigned to, while the pointers to its strings are not, so they can.
\<close>

theorem exactly_one_table:
  "language_fr \<noteq> language_en \<and>
   (active sel = language_fr \<or> active sel = language_en) \<and>
   (active sel = language_fr) = ifdef ''LANGUAGE_FR'' (defined_names sel) \<and>
   (active sel = language_en) = (\<not> ifdef ''LANGUAGE_FR'' (defined_names sel)) \<and>
   lvalue_type (Subscript (string_pointer x)) = Some (Char True) \<and>
   \<not> modifiable (Subscript (string_pointer x)) \<and>
   lvalue_type (string_pointer x) = Some (Pointer False (Char True)) \<and>
   modifiable (string_pointer x)"
proof -
  have distinct: "language_fr \<noteq> language_en"
    by (simp add: language_fr_def language_en_def)
  have build: "(active sel = language_fr) = ifdef ''LANGUAGE_FR'' (defined_names sel)"
    "(active sel = language_en) = (\<not> ifdef ''LANGUAGE_FR'' (defined_names sel))"
    using distinct by (auto simp add: active_def language_h_def)
  have types: "lvalue_type (string_pointer x) = Some (Pointer False (Char True))"
    by (cases x) simp_all
  then have "lvalue_type (Subscript (string_pointer x)) = Some (Char True)"
    "\<not> modifiable (Subscript (string_pointer x))" "modifiable (string_pointer x)"
    by (simp_all add: modifiable_def)
  with distinct build types show ?thesis
    by auto
qed

end
